theory Spec2Isabelle
  imports Complex_Main "HOL-Library.Sublist"
begin

section \<open>Emergency assessment: taxonomy and session state\<close>

text \<open>
  The client component \<^verbatim>\<open>EmergencyAssessment\<close> keeps three fixed lists of symptom
  phrases, one per urgency bucket, and a handful of \<^verbatim>\<open>useState\<close> cells. The cells
  are gathered in one record; every handler of the component is a function from the
  record to the updated record.
\<close>

datatype urgency = Emergency | Urgent | Routine

definition emergencySymptoms :: "string list" where
  "emergencySymptoms =
    [''Difficulty breathing or gasping'',
     ''Seizures or convulsions'',
     ''Loss of consciousness or collapse'',
     ''Severe bleeding'',
     ''Suspected poisoning'',
     ''Severe vomiting or diarrhea'',
     ''Unable to urinate or defecate'',
     ''Signs of severe pain'',
     ''Pale or blue gums'',
     ''Severe lethargy or unresponsiveness'']"

definition urgentSymptoms :: "string list" where
  "urgentSymptoms =
    [''Persistent vomiting'',
     ''Loss of appetite for 24+ hours'',
     ''Unusual lethargy'',
     ''Limping or difficulty moving'',
     ''Excessive thirst or urination'',
     ''Coughing or breathing changes'',
     ''Skin irritation or rash'',
     ''Behavioral changes'',
     ''Eye discharge or redness'',
     ''Minor wounds or cuts'']"

definition routineSymptoms :: "string list" where
  "routineSymptoms =
    [''Minor scratching'',
     ''Slight change in appetite'',
     ''Mild lethargy after exercise'',
     ''Minor behavioral quirks'',
     ''Regular grooming needs'',
     ''Routine check-up items'',
     ''Preventive care questions'',
     ''Diet or exercise concerns'',
     ''Training or behavior tips'',
     ''General wellness questions'']"

text \<open>
  The symptom picker renders one button per phrase; the button of a phrase in
  \<open>emergencySymptoms\<close> calls \<^verbatim>\<open>handleSymptomCheck(symptom, "emergency")\<close>, and
  likewise for the two other lists. \<open>buttons\<close> lists the calls the picker can make, in
  rendering order, and \<open>bucket_of\<close> reads the bucket of a phrase off the lists.
\<close>

definition buttons :: "(string \<times> urgency) list" where
  "buttons =
     map (\<lambda>symptom. (symptom, Emergency)) emergencySymptoms @
     map (\<lambda>symptom. (symptom, Urgent)) urgentSymptoms @
     map (\<lambda>symptom. (symptom, Routine)) routineSymptoms"


text \<open>
  JSON values, as \<^verbatim>\<open>JSON.parse\<close> and \<^verbatim>\<open>response.json()\<close> produce them. An object
  keeps its members in source order; a later member with the same key wins on lookup.
  \<open>jsval\<close> adds JavaScript's \<^verbatim>\<open>undefined\<close>.
\<close>

datatype json =
    JNull
  | JBool bool
  | JNumber real
  | JString string
  | JArray "json list"
  | JObject "(string \<times> json) list"

datatype jsval = Undefined | Defined json

record vital_signs =
  breathing :: string
  heartRate :: string
  temperature :: string
  gumColor :: string

record assessment_cell =
  symptoms :: "string list"
  urgency :: "urgency option"

record session =
  isOpen :: bool
  currentStep :: nat
  selectedDogId :: string
  selectedSymptoms :: "string list"
  duration :: string
  severity :: string
  currentBehavior :: string
  vitalSigns :: vital_signs
  aiAssessment :: jsval
  isAnalyzing :: bool
  assessment :: assessment_cell

definition no_vital_signs :: vital_signs where
  "no_vital_signs = \<lparr>breathing = [], heartRate = [], temperature = [], gumColor = []\<rparr>"

definition no_assessment :: assessment_cell where
  "no_assessment = \<lparr>symptoms = [], urgency = None\<rparr>"

text \<open>The initial values of the \<^verbatim>\<open>useState\<close> cells.\<close>

definition initial_session :: session where
  "initial_session =
    \<lparr>isOpen = False, currentStep = 0, selectedDogId = [], selectedSymptoms = [],
     duration = [], severity = [], currentBehavior = [], vitalSigns = no_vital_signs,
     aiAssessment = Defined JNull, isAnalyzing = False, assessment = no_assessment\<rparr>"

definition startAssessment :: "session \<Rightarrow> session" where
  "startAssessment s = s\<lparr>isOpen := True, currentStep := 0, assessment := no_assessment\<rparr>"

text \<open>
  \<^verbatim>\<open>handleSymptomCheck\<close>: the phrase is appended to both symptom lists, the urgency is
  recomputed by the two-branch rule of the source, and the wizard moves to step 2.
\<close>

definition handleSymptomCheck :: "session \<Rightarrow> string \<Rightarrow> urgency \<Rightarrow> session" where
  "handleSymptomCheck s symptom category =
    (let newSymptoms = symptoms (assessment s) @ [symptom];
         urgency0 = urgency (assessment s);
         urgency1 =
           (if category = Emergency \<or> urgency0 = None then Some category
            else if category = Urgent \<and> urgency0 = Some Routine then Some Urgent
            else urgency0)
     in s\<lparr>assessment := \<lparr>symptoms = newSymptoms, urgency = urgency1\<rparr>,
          selectedSymptoms := selectedSymptoms s @ [symptom],
          currentStep := 2\<rparr>)"

definition resetAssessment :: "session \<Rightarrow> session" where
  "resetAssessment s =
    s\<lparr>currentStep := 0,
      assessment := no_assessment,
      selectedSymptoms := [],
      selectedDogId := [],
      duration := [],
      severity := [],
      currentBehavior := [],
      vitalSigns := no_vital_signs,
      aiAssessment := Defined JNull\<rparr>"

definition toggleSymptom :: "session \<Rightarrow> string \<Rightarrow> session" where
  "toggleSymptom s symptom =
    s\<lparr>selectedSymptoms :=
        (if symptom \<in> set (selectedSymptoms s)
         then filter (\<lambda>x. x \<noteq> symptom) (selectedSymptoms s)
         else selectedSymptoms s @ [symptom])\<rparr>"

text \<open>
  \<^verbatim>\<open>getRecommendation\<close> switches on \<^verbatim>\<open>assessment.urgency\<close>; the default branch
  (urgency \<^verbatim>\<open>null\<close>) returns \<^verbatim>\<open>null\<close>. Strings are byte lists, so the pictograph
  that opens each title is spelled by its UTF-8 bytes, as in the source file.
\<close>

record recommendation =
  title :: string
  description :: string
  action :: string
  color :: string
  bgColor :: string

definition getRecommendation :: "session \<Rightarrow> recommendation option" where
  "getRecommendation s =
    (case urgency (assessment s) of
       Some Emergency \<Rightarrow>
         Some \<lparr>title = [CHR 0xF0, CHR 0x9F, CHR 0x9A, CHR 0xA8] @ '' Emergency Care Needed'',
               description = ''Contact your emergency vet or animal hospital immediately. These symptoms require immediate professional attention.'',
               action = ''Call Emergency Vet Now'',
               color = ''text-destructive'',
               bgColor = ''bg-destructive/10''\<rparr>
     | Some Urgent \<Rightarrow>
         Some \<lparr>title = [CHR 0xE2, CHR 0x9A, CHR 0xA0, CHR 0xEF, CHR 0xB8, CHR 0x8F] @ '' Urgent Veterinary Care'',
               description = ''Schedule an appointment with your vet within the next 24-48 hours. Monitor symptoms closely.'',
               action = ''Schedule Vet Visit'',
               color = ''text-chart-4'',
               bgColor = ''bg-chart-4/10''\<rparr>
     | Some Routine \<Rightarrow>
         Some \<lparr>title = [CHR 0xF0, CHR 0x9F, CHR 0x93, CHR 0x85] @ '' Routine Care'',
               description = ''These concerns can typically wait for your next routine appointment. Continue monitoring and note any changes.'',
               action = ''Schedule Routine Visit'',
               color = ''text-accent'',
               bgColor = ''bg-accent/10''\<rparr>
     | None \<Rightarrow> None)"

text \<open>
  The events the rendered dialog offers. A button exists only while the step that
  renders it is shown: the picker's buttons at step 1, ``Start Over'' and ``Close'' at
  step 2 when a recommendation is shown, ``Continue'' at step 0. ``Start Assessment''
  is outside the dialog, and \<open>Dismiss\<close> is the dialog's own \<^verbatim>\<open>onOpenChange\<close>.
\<close>

datatype event =
    StartAssessment
  | Continue
  | Back
  | CancelAssessment
  | Pick string urgency
  | StartOver
  | Close
  | Dismiss

fun ui_step :: "session \<Rightarrow> event \<Rightarrow> session" where
  "ui_step s StartAssessment = startAssessment s"
| "ui_step s Continue =
     (if isOpen s \<and> currentStep s = 0 then s\<lparr>currentStep := 1\<rparr> else s)"
| "ui_step s Back =
     (if isOpen s \<and> currentStep s = 1 then s\<lparr>currentStep := 0\<rparr> else s)"
| "ui_step s CancelAssessment =
     (if isOpen s \<and> currentStep s = 1 then s\<lparr>isOpen := False\<rparr> else s)"
| "ui_step s (Pick symptom category) =
     (if isOpen s \<and> currentStep s = 1 \<and> (symptom, category) \<in> set buttons
      then handleSymptomCheck s symptom category else s)"
| "ui_step s StartOver =
     (if isOpen s \<and> currentStep s = 2 \<and> getRecommendation s \<noteq> None
      then resetAssessment s else s)"
| "ui_step s Close =
     (if isOpen s \<and> currentStep s = 2 \<and> getRecommendation s \<noteq> None
      then s\<lparr>isOpen := False\<rparr> else s)"
| "ui_step s Dismiss = (if isOpen s then s\<lparr>isOpen := False\<rparr> else s)"

definition ui_run :: "session \<Rightarrow> event list \<Rightarrow> session" where
  "ui_run = foldl ui_step"

text \<open>Sequences of handler calls, without the dialog's gating.\<close>

definition select_all :: "session \<Rightarrow> (string \<times> urgency) list \<Rightarrow> session" where
  "select_all = foldl (\<lambda>s (symptom, category). handleSymptomCheck s symptom category)"

datatype operation = Select string urgency | Toggle string

fun apply_operation :: "session \<Rightarrow> operation \<Rightarrow> session" where
  "apply_operation s (Select symptom category) = handleSymptomCheck s symptom category"
| "apply_operation s (Toggle symptom) = toggleSymptom s symptom"

fun selects_unselected :: "session \<Rightarrow> operation list \<Rightarrow> bool" where
  "selects_unselected s [] = True"
| "selects_unselected s (Select symptom category # ops) =
     (symptom \<notin> set (selectedSymptoms s) \<and>
      selects_unselected (handleSymptomCheck s symptom category) ops)"
| "selects_unselected s (Toggle symptom # ops) =
     selects_unselected (toggleSymptom s symptom) ops"

subsection \<open>The classifier and the presentation table as the specification words them\<close>

text \<open>
  \<open>classify\<close> is the four-line rule of the specification, \<open>priority\<close> its order
  \<^verbatim>\<open>emergency > urgent > routine\<close>, and \<open>describe_table\<close> its table of title tones
  and action labels. They are compared with the handlers above, not used by them.
  \<open>highest_recorded\<close> says of a session what the specification asks of the derived
  urgency: it is null while no symptom is recorded in \<^verbatim>\<open>assessment.symptoms\<close>, and
  otherwise it is the bucket of a recorded symptom, every recorded symptom is canned,
  and none has a bucket of higher priority.
\<close>

definition classify :: "urgency option \<Rightarrow> urgency \<Rightarrow> urgency" where
  "classify currentUrgency newBucket =
    (case currentUrgency of
       None \<Rightarrow> newBucket
     | Some current \<Rightarrow>
         if newBucket = Emergency then Emergency
         else if newBucket = Urgent \<and> current = Routine then Urgent
         else current)"


fun describe_table :: "urgency \<Rightarrow> string \<times> string" where
  "describe_table Emergency = (''Emergency care needed'', ''Call emergency vet now'')"
| "describe_table Urgent = (''Urgent veterinary care'', ''Schedule vet visit'')"
| "describe_table Routine = (''Routine care'', ''Schedule routine visit'')"



definition lower :: "char \<Rightarrow> char" where
  "lower c =
    (if (65::nat) \<le> of_char c \<and> of_char c \<le> (90::nat) then char_of (of_char c + (32::nat))
     else c)"

section \<open>Toasts\<close>

datatype toast_variant = DefaultVariant | Destructive

text \<open>A toast: its title, its description and its variant.\<close>

datatype toast = Toast string string toast_variant

function show_nat :: "nat \<Rightarrow> string" where
  "show_nat n =
    (if n < 10 then [char_of (48 + n)]
     else show_nat (n div 10) @ [char_of (48 + n mod 10)])"
  by pat_completeness auto
termination
  by (relation "measure id") auto

declare show_nat.simps [simp del]

section \<open>The AI orchestrator on the server\<close>

subsection \<open>JSON texts\<close>

text \<open>
  \<^verbatim>\<open>JSON.parse\<close> is a primitive of the language. The three analysis functions below
  take it as a parameter \<open>parse\<close>, where \<open>None\<close> stands for the \<^verbatim>\<open>SyntaxError\<close> it
  throws. For the concrete examples \<open>JSON_parse_fragment\<close> reads the JSON texts whose
  strings contain no escape sequence, whose numbers are integers in plain decimal
  notation, exact as doubles, and whose objects repeat no key; it is given fuel one more
  than the length of the text. On other texts it says nothing about \<^verbatim>\<open>JSON.parse\<close>,
  and it is applied to none.
\<close>

definition json_ws :: "char \<Rightarrow> bool" where
  "json_ws c = (c = CHR 0x20 \<or> c = CHR 0x09 \<or> c = CHR 0x0A \<or> c = CHR 0x0D)"

definition skip_ws :: "string \<Rightarrow> string" where
  "skip_ws = dropWhile json_ws"

fun string_body :: "string \<Rightarrow> (string \<times> string) option" where
  "string_body [] = None"
| "string_body (c # cs) =
     (if c = CHR 0x22 then Some ([], cs)
      else if c = CHR 0x5C \<or> (of_char c :: nat) < 32 then None
      else map_option (\<lambda>(body, rest). (c # body, rest)) (string_body cs))"

definition is_digit :: "char \<Rightarrow> bool" where
  "is_digit c = (48 \<le> (of_char c :: nat) \<and> (of_char c :: nat) \<le> 57)"

definition digits_value :: "string \<Rightarrow> int" where
  "digits_value ds = foldl (\<lambda>n d. 10 * n + (of_char d - 48)) 0 ds"

definition json_number :: "string \<Rightarrow> (json \<times> string) option" where
  "json_number s =
    (let negative = (take 1 s = ''-'');
         unsigned = (if negative then drop 1 s else s);
         ds = takeWhile is_digit unsigned;
         rest = dropWhile is_digit unsigned
     in if ds = [] \<or> (1 < length ds \<and> take 1 ds = ''0'') then None
        else if take 1 rest = ''.'' \<or> take 1 rest = ''e'' \<or> take 1 rest = ''E'' then None
        else Some (JNumber (of_int (if negative then - digits_value ds else digits_value ds)),
               rest))"

fun parse_value :: "nat \<Rightarrow> string \<Rightarrow> (json \<times> string) option"
  and parse_elements :: "nat \<Rightarrow> string \<Rightarrow> (json list \<times> string) option"
  and parse_members :: "nat \<Rightarrow> string \<Rightarrow> ((string \<times> json) list \<times> string) option"
where
  "parse_value 0 s = None"
| "parse_value (Suc n) s =
    (case skip_ws s of
       [] \<Rightarrow> None
     | c # cs \<Rightarrow>
        if c = CHR ''{'' then
          (case skip_ws cs of
             [] \<Rightarrow> None
           | d # ds \<Rightarrow>
              if d = CHR ''}'' then Some (JObject [], ds)
              else map_option (\<lambda>(ms, rest). (JObject ms, rest)) (parse_members n (d # ds)))
        else if c = CHR ''['' then
          (case skip_ws cs of
             [] \<Rightarrow> None
           | d # ds \<Rightarrow>
              if d = CHR '']'' then Some (JArray [], ds)
              else map_option (\<lambda>(vs, rest). (JArray vs, rest)) (parse_elements n (d # ds)))
        else if c = CHR 0x22 then
          map_option (\<lambda>(body, rest). (JString body, rest)) (string_body cs)
        else if take 4 (c # cs) = ''true'' then Some (JBool True, drop 4 (c # cs))
        else if take 5 (c # cs) = ''false'' then Some (JBool False, drop 5 (c # cs))
        else if take 4 (c # cs) = ''null'' then Some (JNull, drop 4 (c # cs))
        else json_number (c # cs))"
| "parse_elements 0 s = None"
| "parse_elements (Suc n) s =
    (case parse_value n s of
       None \<Rightarrow> None
     | Some (v, rest) \<Rightarrow>
        (case skip_ws rest of
           [] \<Rightarrow> None
         | c # cs \<Rightarrow>
            if c = CHR '','' then
              map_option (\<lambda>(vs, rest'). (v # vs, rest')) (parse_elements n cs)
            else if c = CHR '']'' then Some ([v], cs)
            else None))"
| "parse_members 0 s = None"
| "parse_members (Suc n) s =
    (case skip_ws s of
       [] \<Rightarrow> None
     | c # cs \<Rightarrow>
        if c = CHR 0x22 then
          (case string_body cs of
             None \<Rightarrow> None
           | Some (key, rest) \<Rightarrow>
              (case skip_ws rest of
                 [] \<Rightarrow> None
               | d # ds \<Rightarrow>
                  if d = CHR '':'' then
                    (case parse_value n ds of
                       None \<Rightarrow> None
                     | Some (v, rest') \<Rightarrow>
                        (case skip_ws rest' of
                           [] \<Rightarrow> None
                         | e # es \<Rightarrow>
                            if e = CHR '','' then
                              map_option (\<lambda>(ms, r). ((key, v) # ms, r)) (parse_members n es)
                            else if e = CHR ''}'' then Some ([(key, v)], es)
                            else None))
                  else None))
        else None)"

definition JSON_parse_fragment :: "string \<Rightarrow> json option" where
  "JSON_parse_fragment text =
    (case parse_value (Suc (length text)) text of
       None \<Rightarrow> None
     | Some (v, rest) \<Rightarrow> if skip_ws rest = [] then Some v else None)"

subsection \<open>The declared result shapes\<close>

text \<open>
  The interfaces of \<^verbatim>\<open>shared/aiTypes.ts\<close>, read as predicates on JSON values: every
  declared member is present with the declared type; \<^verbatim>\<open>emergencyWarning?\<close> may be
  absent.
\<close>

definition json_member :: "json \<Rightarrow> string \<Rightarrow> json option" where
  "json_member j key = (case j of JObject ms \<Rightarrow> map_of (rev ms) key | _ \<Rightarrow> None)"

definition is_string :: "json option \<Rightarrow> bool" where
  "is_string m = (case m of Some (JString _) \<Rightarrow> True | _ \<Rightarrow> False)"

definition is_one_of :: "string list \<Rightarrow> json option \<Rightarrow> bool" where
  "is_one_of allowed m = (case m of Some (JString x) \<Rightarrow> x \<in> set allowed | _ \<Rightarrow> False)"

definition is_boolean :: "json option \<Rightarrow> bool" where
  "is_boolean m = (case m of Some (JBool _) \<Rightarrow> True | _ \<Rightarrow> False)"

definition is_string_array :: "json option \<Rightarrow> bool" where
  "is_string_array m =
    (case m of Some (JArray xs) \<Rightarrow> list_all (\<lambda>x. is_string (Some x)) xs | _ \<Rightarrow> False)"

definition conforms_SymptomAnalysis :: "json \<Rightarrow> bool" where
  "conforms_SymptomAnalysis j =
    (is_one_of [''mild'', ''moderate'', ''severe''] (json_member j ''severity'') \<and>
     is_one_of [''non-urgent'', ''same-day'', ''emergency''] (json_member j ''urgency'') \<and>
     is_string (json_member j ''insights'') \<and>
     is_string_array (json_member j ''recommendations'') \<and>
     is_boolean (json_member j ''vetRequired'') \<and>
     (json_member j ''emergencyWarning'' = None \<or> is_string (json_member j ''emergencyWarning'')))"

definition conforms_PhotoAnalysis :: "json \<Rightarrow> bool" where
  "conforms_PhotoAnalysis j =
    (is_string (json_member j ''findings'') \<and>
     is_string_array (json_member j ''concerns'') \<and>
     is_string_array (json_member j ''recommendations'') \<and>
     is_one_of [''low'', ''medium'', ''high''] (json_member j ''urgencyLevel'') \<and>
     is_string_array (json_member j ''suggestedActions''))"

definition conforms_EmergencyAssessment :: "json \<Rightarrow> bool" where
  "conforms_EmergencyAssessment j =
    (is_one_of [''non-urgent'', ''urgent'', ''emergency''] (json_member j ''urgencyLevel'') \<and>
     is_string (json_member j ''timeFrame'') \<and>
     is_string (json_member j ''reasoning'') \<and>
     is_string_array (json_member j ''immediateActions'') \<and>
     is_string_array (json_member j ''redFlags'') \<and>
     is_boolean (json_member j ''vetRequired''))"

subsection \<open>The three analysis functions\<close>

text \<open>
  What the generative model answers is an input of the model: the call is rejected, or
  it resolves to a response whose \<^verbatim>\<open>text\<close> is a string or \<^verbatim>\<open>undefined\<close>.

  Each function throws inside an inner \<^verbatim>\<open>try\<close> and wraps whatever was thrown in an
  outer \<^verbatim>\<open>catch\<close>: the error value names the function that failed and the cause.
\<close>

datatype model_reply = CallRejected | ResponseText "string option"

datatype cause = PromptFailed | ModelCallFailed | EmptyResponse | InvalidJson

datatype ai_error =
    FailedToAnalyzeSymptoms cause
  | FailedToAnalyzePhoto cause
  | FailedToPerformEmergencyAssessment cause

text \<open>
  \<^verbatim>\<open>String.prototype.trim\<close> strips white space and line terminators from both ends:
  tab, line feed, vertical tab, form feed, carriage return, space, U+00A0, U+1680,
  U+2000 to U+200A, U+2028, U+2029, U+202F, U+205F, U+3000 and U+FEFF. Strings are
  byte lists, so each is listed by its UTF-8 bytes.
\<close>

definition js_white_space :: "string list" where
  "js_white_space =
    [[CHR 0x09], [CHR 0x0A], [CHR 0x0B], [CHR 0x0C], [CHR 0x0D], [CHR 0x20],
     [CHR 0xC2, CHR 0xA0],
     [CHR 0xE1, CHR 0x9A, CHR 0x80],
     [CHR 0xE2, CHR 0x80, CHR 0x80], [CHR 0xE2, CHR 0x80, CHR 0x81],
     [CHR 0xE2, CHR 0x80, CHR 0x82], [CHR 0xE2, CHR 0x80, CHR 0x83],
     [CHR 0xE2, CHR 0x80, CHR 0x84], [CHR 0xE2, CHR 0x80, CHR 0x85],
     [CHR 0xE2, CHR 0x80, CHR 0x86], [CHR 0xE2, CHR 0x80, CHR 0x87],
     [CHR 0xE2, CHR 0x80, CHR 0x88], [CHR 0xE2, CHR 0x80, CHR 0x89],
     [CHR 0xE2, CHR 0x80, CHR 0x8A],
     [CHR 0xE2, CHR 0x80, CHR 0xA8], [CHR 0xE2, CHR 0x80, CHR 0xA9],
     [CHR 0xE2, CHR 0x80, CHR 0xAF],
     [CHR 0xE2, CHR 0x81, CHR 0x9F],
     [CHR 0xE3, CHR 0x80, CHR 0x80],
     [CHR 0xEF, CHR 0xBB, CHR 0xBF]]"

function strip_prefixes :: "string list \<Rightarrow> string \<Rightarrow> string" where
  "strip_prefixes tokens s =
    (case find (\<lambda>w. w \<noteq> [] \<and> prefix w s) tokens of
       None \<Rightarrow> s
     | Some w \<Rightarrow> strip_prefixes tokens (drop (length w) s))"
  by pat_completeness auto
termination
  by (relation "measure (\<lambda>(tokens, s). length s)") (auto simp: find_Some_iff prefix_def)

declare strip_prefixes.simps [simp del]

definition js_trim :: "string \<Rightarrow> string" where
  "js_trim s =
    rev (strip_prefixes (map rev js_white_space) (rev (strip_prefixes js_white_space s)))"

text \<open>
  Each prompt is a template literal written inside the \<^verbatim>\<open>try\<close>, before the call.
  Interpolating a value converts it to a string, and the conversion throws for an object
  that has a member \<^verbatim>\<open>toString\<close> of its own (no JSON value is callable, and the
  inherited \<^verbatim>\<open>valueOf\<close> returns the object); an array is joined, so it converts
  when its elements do. The members come from the request body unchecked.
  \<open>entry_values\<close> are the values \<^verbatim>\<open>Object.entries\<close> lists.
\<close>

fun stringifiable :: "json \<Rightarrow> bool" where
  "stringifiable (JArray xs) = list_all stringifiable xs"
| "stringifiable (JObject ms) = (''toString'' \<notin> set (map fst ms))"
| "stringifiable _ = True"

definition truthy :: "jsval \<Rightarrow> bool" where
  "truthy v =
    (case v of
       Undefined \<Rightarrow> False
     | Defined JNull \<Rightarrow> False
     | Defined (JBool b) \<Rightarrow> b
     | Defined (JNumber n) \<Rightarrow> n \<noteq> 0
     | Defined (JString x) \<Rightarrow> x \<noteq> []
     | Defined _ \<Rightarrow> True)"

definition converts :: "json option \<Rightarrow> bool" where
  "converts member = (case member of None \<Rightarrow> True | Some v \<Rightarrow> stringifiable v)"

definition converts_if_truthy :: "json option \<Rightarrow> bool" where
  "converts_if_truthy member =
    (case member of
       None \<Rightarrow> True
     | Some v \<Rightarrow> if truthy (Defined v) then stringifiable v else True)"

fun last_members :: "(string \<times> json) list \<Rightarrow> (string \<times> json) list" where
  "last_members [] = []"
| "last_members ((key, v) # ms) =
     (if key \<in> set (map fst ms) then last_members ms else (key, v) # last_members ms)"

definition entry_values :: "json \<Rightarrow> json list" where
  "entry_values v =
    (case v of
       JObject ms \<Rightarrow> map snd (last_members ms)
     | JArray xs \<Rightarrow> xs
     | JString text \<Rightarrow> map (\<lambda>c. JString [c]) text
     | _ \<Rightarrow> [])"

text \<open>
  \<^verbatim>\<open>analyzeSymptoms\<close> interpolates \<^verbatim>\<open>type\<close> and \<^verbatim>\<open>title\<close>, and
  \<^verbatim>\<open>description\<close> and \<^verbatim>\<open>severity\<close> when they are truthy; breed, age and weight are
  set by the route from the stored dog.
\<close>

definition symptoms_prompt_builds :: "json \<Rightarrow> bool" where
  "symptoms_prompt_builds symptomData =
    (converts (json_member symptomData ''type'') \<and>
     converts (json_member symptomData ''title'') \<and>
     converts_if_truthy (json_member symptomData ''description'') \<and>
     converts_if_truthy (json_member symptomData ''severity''))"

text \<open>
  \<^verbatim>\<open>performEmergencyAssessment\<close> maps over \<^verbatim>\<open>assessmentData.symptoms\<close>, which
  throws unless that member is an array, and interpolates each symptom, the duration,
  the severity, the current behaviour and, when \<^verbatim>\<open>vitalSigns\<close> is truthy, each of
  its truthy entries. The route adds \<^verbatim>\<open>dogInfo\<close> from the stored dog and touches no
  other member.
\<close>

definition emergency_prompt_builds :: "json \<Rightarrow> bool" where
  "emergency_prompt_builds assessmentData =
    ((case json_member assessmentData ''symptoms'' of
        Some (JArray items) \<Rightarrow> list_all stringifiable items
      | _ \<Rightarrow> False) \<and>
     converts (json_member assessmentData ''duration'') \<and>
     converts (json_member assessmentData ''severity'') \<and>
     converts (json_member assessmentData ''currentBehavior'') \<and>
     (case json_member assessmentData ''vitalSigns'' of
        None \<Rightarrow> True
      | Some signs \<Rightarrow>
         if truthy (Defined signs)
         then list_all stringifiable (filter (\<lambda>v. truthy (Defined v)) (entry_values signs))
         else True))"

text \<open>
  \<^verbatim>\<open>analyzeHealthPhoto\<close> interpolates its \<^verbatim>\<open>context\<close> when that is truthy. The
  context comes from the multipart form parser, which is outside the sources; it is
  given by what the template does with it: nothing for a falsy context, its text for one
  that converts, a thrown error for a truthy one that does not.
\<close>

datatype photo_context = NoContext | ContextText string | ContextUnconvertible

definition analyzeSymptoms ::
  "(string \<Rightarrow> json option) \<Rightarrow> json \<Rightarrow> model_reply \<Rightarrow> ai_error + json" where
  "analyzeSymptoms parse symptomData reply =
    (if \<not> symptoms_prompt_builds symptomData then Inl (FailedToAnalyzeSymptoms PromptFailed)
     else
       (case reply of
          CallRejected \<Rightarrow> Inl (FailedToAnalyzeSymptoms ModelCallFailed)
        | ResponseText rawJson \<Rightarrow>
           (case rawJson of
              None \<Rightarrow> Inl (FailedToAnalyzeSymptoms EmptyResponse)
            | Some text \<Rightarrow>
               if text = [] \<or> js_trim text = [] then Inl (FailedToAnalyzeSymptoms EmptyResponse)
               else (case parse text of
                       None \<Rightarrow> Inl (FailedToAnalyzeSymptoms InvalidJson)
                     | Some analysis \<Rightarrow> Inr analysis))))"

definition analyzeHealthPhoto ::
  "(string \<Rightarrow> json option) \<Rightarrow> photo_context \<Rightarrow> model_reply \<Rightarrow> ai_error + json" where
  "analyzeHealthPhoto parse context reply =
    (if context = ContextUnconvertible then Inl (FailedToAnalyzePhoto PromptFailed)
     else
       (case reply of
          CallRejected \<Rightarrow> Inl (FailedToAnalyzePhoto ModelCallFailed)
        | ResponseText rawJson \<Rightarrow>
           (case rawJson of
              None \<Rightarrow> Inl (FailedToAnalyzePhoto EmptyResponse)
            | Some text \<Rightarrow>
               if text = [] \<or> js_trim text = [] then Inl (FailedToAnalyzePhoto EmptyResponse)
               else (case parse text of
                       None \<Rightarrow> Inl (FailedToAnalyzePhoto InvalidJson)
                     | Some analysis \<Rightarrow> Inr analysis))))"

definition performEmergencyAssessment ::
  "(string \<Rightarrow> json option) \<Rightarrow> json \<Rightarrow> model_reply \<Rightarrow> ai_error + json" where
  "performEmergencyAssessment parse assessmentData reply =
    (if \<not> emergency_prompt_builds assessmentData
     then Inl (FailedToPerformEmergencyAssessment PromptFailed)
     else
       (case reply of
          CallRejected \<Rightarrow> Inl (FailedToPerformEmergencyAssessment ModelCallFailed)
        | ResponseText rawJson \<Rightarrow>
           (case rawJson of
              None \<Rightarrow> Inl (FailedToPerformEmergencyAssessment EmptyResponse)
            | Some text \<Rightarrow>
               if text = [] \<or> js_trim text = []
               then Inl (FailedToPerformEmergencyAssessment EmptyResponse)
               else (case parse text of
                       None \<Rightarrow> Inl (FailedToPerformEmergencyAssessment InvalidJson)
                     | Some parsed \<Rightarrow> Inr parsed))))"

subsection \<open>The route and the dog's age\<close>

text \<open>
  \<open>age\<close> is the expression both AI routes compute: the milliseconds between now and the
  birth date, divided by the milliseconds of a year of 365 days, under \<^verbatim>\<open>Math.floor\<close>;
  \<^verbatim>\<open>undefined\<close> when the dog has no birth date. Times are integers (milliseconds
  since the epoch); the quotient is a real number. The source divides in double
  precision; for integer operands below \<open>2 ^ 53\<close>, as these are, the rounded quotient
  has the floor of the exact one.

  \<open>age_line\<close> is the line of both prompts that carries the age to the model:
  \<^verbatim>\<open>- Age: ${age ? age + " years" : "unknown"}\<close>, where an age of 0 is falsy.
\<close>

definition ms_per_year :: int where
  "ms_per_year = 1000 * 60 * 60 * 24 * 365"

definition age :: "int \<Rightarrow> int option \<Rightarrow> int option" where
  "age now birthDate =
    (case birthDate of
       None \<Rightarrow> None
     | Some born \<Rightarrow> Some \<lfloor>real_of_int (now - born) / real_of_int ms_per_year\<rfloor>)"

definition show_int :: "int \<Rightarrow> string" where
  "show_int i = (if i < 0 then ''-'' @ show_nat (nat (- i)) else show_nat (nat i))"

definition age_line :: "int option \<Rightarrow> string" where
  "age_line computed =
    ''- Age: '' @
    (case computed of
       None \<Rightarrow> ''unknown''
     | Some years \<Rightarrow> if years \<noteq> 0 then show_int years @ '' years'' else ''unknown'')"

text \<open>
  The calendar reading of ``whole years from the birth date to the current date'': the
  difference of the years, less one while the birthday of the current year is still to
  come. A date is year, month, day; \<open>days_from_civil\<close> counts its days from 1 January
  1970 in the Gregorian calendar, and \<open>utc_midnight\<close> is its time in milliseconds.
\<close>

type_synonym date = "int \<times> int \<times> int"

fun calendar_years_between :: "date \<Rightarrow> date \<Rightarrow> int" where
  "calendar_years_between (born_year, born_month, born_day) (year, month, day) =
     year - born_year -
     (if month < born_month \<or> (month = born_month \<and> day < born_day) then 1 else 0)"

fun days_from_civil :: "date \<Rightarrow> int" where
  "days_from_civil (year, month, day) =
    (let y = (if month \<le> 2 then year - 1 else year);
         era = y div 400;
         year_of_era = y - era * 400;
         shifted_month = (month + 9) mod 12;
         day_of_year = (153 * shifted_month + 2) div 5 + day - 1;
         day_of_era = year_of_era * 365 + year_of_era div 4 - year_of_era div 100 + day_of_year
     in era * 146097 + day_of_era - 719468)"

definition utc_midnight :: "date \<Rightarrow> int" where
  "utc_midnight d = days_from_civil d * (24 * 60 * 60 * 1000)"

record dog =
  breed :: string
  birthDate :: "int option"

record http_response =
  status :: nat
  payload :: json

definition ok :: "http_response \<Rightarrow> bool" where
  "ok response = (200 \<le> status response \<and> status response \<le> 299)"

datatype 'a promise = Rejected | Resolved 'a

text \<open>
  \<^verbatim>\<open>POST /api/ai/emergency-assessment\<close>, from the request's \<^verbatim>\<open>dogId\<close> and
  \<^verbatim>\<open>assessmentData\<close>, what the two storage calls resolve to (the dog, if there is
  one, and the health records as pairs of type and title) and the model's reply. A
  rejected storage call is caught like every other error. The route adds
  \<^verbatim>\<open>dogInfo\<close> to the assessment data and leaves its other members; a truthy value
  that is no object has no member at all.
\<close>

definition emergency_assessment_route ::
  "(string \<Rightarrow> json option) \<Rightarrow> jsval \<Rightarrow> jsval \<Rightarrow> dog option promise \<Rightarrow>
     (string \<times> string) list promise \<Rightarrow> model_reply \<Rightarrow> http_response" where
  "emergency_assessment_route parse dogId assessmentData found records reply =
    (if \<not> truthy dogId \<or> \<not> truthy assessmentData then
       \<lparr>status = 400,
        payload = JObject [(''error'', JString ''Missing required fields: dogId and assessmentData'')]\<rparr>
     else
       (case found of
          Rejected \<Rightarrow>
            \<lparr>status = 500,
             payload = JObject [(''error'', JString ''Failed to perform emergency assessment'')]\<rparr>
        | Resolved None \<Rightarrow>
            \<lparr>status = 404, payload = JObject [(''error'', JString ''Dog not found'')]\<rparr>
        | Resolved (Some d) \<Rightarrow>
           (case records of
              Rejected \<Rightarrow>
                \<lparr>status = 500,
                 payload = JObject [(''error'', JString ''Failed to perform emergency assessment'')]\<rparr>
            | Resolved recentRecords \<Rightarrow>
               (case performEmergencyAssessment parse
                       (case assessmentData of Defined data \<Rightarrow> data | Undefined \<Rightarrow> JNull) reply of
                  Inr parsed \<Rightarrow> \<lparr>status = 200, payload = parsed\<rparr>
                | Inl e \<Rightarrow>
                   \<lparr>status = 500,
                    payload =
                      JObject [(''error'', JString ''Failed to perform emergency assessment'')]\<rparr>))))"

section \<open>The AI assessment on the client\<close>

text \<open>
  \<^verbatim>\<open>performAIAssessment\<close> awaits \<^verbatim>\<open>apiRequest\<close> and then reads
  \<^verbatim>\<open>result.assessment\<close> off the parsed body. \<^verbatim>\<open>apiRequest\<close> belongs to
  \<^verbatim>\<open>lib/queryClient\<close>; what it resolves to is the second argument. Reading a member of
  \<^verbatim>\<open>null\<close> throws, which the handler's \<^verbatim>\<open>catch\<close> takes like a failed request.
\<close>

definition get_assessment :: "json \<Rightarrow> jsval option" where
  "get_assessment result =
    (case result of
       JNull \<Rightarrow> None
     | JObject ms \<Rightarrow>
        Some (case map_of (rev ms) ''assessment'' of None \<Rightarrow> Undefined | Some v \<Rightarrow> Defined v)
     | _ \<Rightarrow> Some Undefined)"

definition performAIAssessment :: "session \<Rightarrow> http_response promise \<Rightarrow> session \<times> toast" where
  "performAIAssessment s requested =
    (if selectedDogId s = [] \<or> selectedSymptoms s = [] then
       (s, Toast ''Missing Information''
             ''Please select a dog and symptoms before getting AI analysis.'' Destructive)
     else
       (case requested of
          Rejected \<Rightarrow>
            (s\<lparr>isAnalyzing := False\<rparr>,
             Toast ''Assessment Failed''
               ''Unable to perform AI assessment. Please try again.'' Destructive)
        | Resolved response \<Rightarrow>
           (case get_assessment (payload response) of
              None \<Rightarrow>
                (s\<lparr>isAnalyzing := False\<rparr>,
                 Toast ''Assessment Failed''
                   ''Unable to perform AI assessment. Please try again.'' Destructive)
            | Some result \<Rightarrow>
                (s\<lparr>aiAssessment := result, currentStep := 3, isAnalyzing := False\<rparr>,
                 Toast ''AI Assessment Complete''
                   ''Emergency assessment has been analyzed by AI.'' DefaultVariant))))"

section \<open>Batch photo analysis in the health entry form\<close>

text \<open>
  \<^verbatim>\<open>analyzePhotos\<close> sends one request per selected file, in order. For each file the
  environment says what \<^verbatim>\<open>fetch\<close> does: it rejects, or it resolves to a response with
  its \<^verbatim>\<open>ok\<close> flag and what \<^verbatim>\<open>response.json()\<close> yields (\<open>None\<close> when that
  rejects). A rejection anywhere leaves the loop through the handler's \<^verbatim>\<open>catch\<close>.
\<close>

record upload =
  file_name :: string
  file_size :: nat

datatype fetch_outcome = FetchRejected | FetchResponse bool "json option"

record entry_form =
  selectedFiles :: "upload list"
  photoAnalyses :: "json list"
  isAnalyzingPhotos :: bool

fun analyze_each ::
  "(upload \<Rightarrow> fetch_outcome) \<Rightarrow> upload list \<Rightarrow> json list \<Rightarrow> json list option" where
  "analyze_each fetch [] analyses = Some analyses"
| "analyze_each fetch (file # files) analyses =
    (case fetch file of
       FetchRejected \<Rightarrow> None
     | FetchResponse response_ok body \<Rightarrow>
        if response_ok then
          (case body of
             None \<Rightarrow> None
           | Some analysis \<Rightarrow> analyze_each fetch files (analyses @ [analysis]))
        else analyze_each fetch files analyses)"

definition analyzePhotos :: "(upload \<Rightarrow> fetch_outcome) \<Rightarrow> entry_form \<Rightarrow> entry_form \<times> toast" where
  "analyzePhotos fetch form =
    (if selectedFiles form = [] then
       (form, Toast ''No Photos'' ''Please upload photos before analyzing.'' Destructive)
     else
       (case analyze_each fetch (selectedFiles form) [] of
          Some analyses \<Rightarrow>
            (form\<lparr>photoAnalyses := analyses, isAnalyzingPhotos := False\<rparr>,
             Toast ''Photo Analysis Complete''
               (''Analyzed '' @ show_nat (length analyses) @ '' photo(s) successfully.'')
               DefaultVariant)
        | None \<Rightarrow>
            (form\<lparr>isAnalyzingPhotos := False\<rparr>,
             Toast ''Photo Analysis Failed''
               ''Unable to analyze photos. Please try again.'' Destructive)))"

section \<open>Example inputs\<close>

text \<open>
  An \<^verbatim>\<open>apiRequest\<close> that throws on a response whose status is not 2xx and hands
  every other response on.
\<close>

definition reject_unless_ok :: "http_response \<Rightarrow> http_response promise" where
  "reject_unless_ok response = (if ok response then Resolved response else Rejected)"

text \<open>
  The assessment data the client sends for one selected symptom and empty fields, and
  the symptom data of a health entry.
\<close>

definition example_assessmentData :: json where
  "example_assessmentData =
    JObject [(''symptoms'', JArray [JString ''Seizures or convulsions'']),
             (''duration'', JString ''Unknown''),
             (''severity'', JString ''Not specified''),
             (''currentBehavior'', JString ''Not specified''),
             (''vitalSigns'', JObject [])]"

definition example_symptomData :: json where
  "example_symptomData =
    JObject [(''type'', JString ''symptom''), (''title'', JString ''Vomiting'')]"

definition example_dog :: dog where
  "example_dog = \<lparr>breed = ''Beagle'', birthDate = None\<rparr>"

text \<open>
  Two ways the photo endpoint can treat a batch: \<open>example_fetch\<close> answers the file
  \<^verbatim>\<open>scan.tiff\<close> with status 500 and analyses every other file; with
  \<open>example_fetch_offline\<close> the request for \<^verbatim>\<open>scan.tiff\<close> is rejected by the network.
\<close>

definition example_fetch :: "upload \<Rightarrow> fetch_outcome" where
  "example_fetch file =
    (if file_name file = ''scan.tiff''
     then FetchResponse False (Some (JObject [(''error'', JString ''Failed to analyze photo'')]))
     else FetchResponse True (Some (JObject [(''findings'', JString (file_name file))])))"

definition example_fetch_offline :: "upload \<Rightarrow> fetch_outcome" where
  "example_fetch_offline file =
    (if file_name file = ''scan.tiff'' then FetchRejected
     else FetchResponse True (Some (JObject [(''findings'', JString (file_name file))])))"

definition example_form :: "string list \<Rightarrow> entry_form" where
  "example_form names =
    \<lparr>selectedFiles = map (\<lambda>name. \<lparr>file_name = name, file_size = 1024\<rparr>) names,
     photoAnalyses = [], isAnalyzingPhotos = False\<rparr>"

section \<open>The local classifier\<close>

lemma urgency_handleSymptomCheck:
  "urgency (assessment (handleSymptomCheck s symptom category)) =
     Some (classify (urgency (assessment s)) category)"
  by (cases "urgency (assessment s)"; cases category)
     (auto simp: handleSymptomCheck_def classify_def Let_def)


lemma selectedSymptoms_handleSymptomCheck:
  "selectedSymptoms (handleSymptomCheck s symptom category) = selectedSymptoms s @ [symptom]"
  by (simp add: handleSymptomCheck_def Let_def)

text \<open>
  Claim C1. On every call of \<open>handleSymptomCheck\<close> the new urgency is the value of the
  specified rule \<open>classify\<close> at the current urgency (or null) and the new bucket: the new
  bucket when the current urgency is null, emergency whenever the new bucket is
  emergency, urgent when the new bucket is urgent and the current one routine, and the
  current urgency otherwise.
\<close>

theorem handleSymptomCheck_classifies:
  "urgency (assessment (handleSymptomCheck s symptom category)) =
     Some (classify (urgency (assessment s)) category)"
  by (rule urgency_handleSymptomCheck)

subsection \<open>The derived urgency along the dialog\<close>















section \<open>Starting over\<close>

text \<open>
  Claim C3, as the code has it. ``Start Over'' empties the selected symptoms, the recorded
  symptoms and the derived urgency, the three free-text fields, the four vital signs, the
  selected dog and the AI result, and it shows step 0, the introduction; whether the
  dialog is open and whether an analysis is running are left as they were.
\<close>

theorem resetAssessment_returns_to_intro:
  "selectedSymptoms (resetAssessment s) = [] \<and>
   assessment (resetAssessment s) = \<lparr>symptoms = [], urgency = None\<rparr> \<and>
   duration (resetAssessment s) = [] \<and>
   severity (resetAssessment s) = [] \<and>
   currentBehavior (resetAssessment s) = [] \<and>
   vitalSigns (resetAssessment s) =
     \<lparr>breathing = [], heartRate = [], temperature = [], gumColor = []\<rparr> \<and>
   selectedDogId (resetAssessment s) = [] \<and>
   aiAssessment (resetAssessment s) = Defined JNull \<and>
   currentStep (resetAssessment s) = 0 \<and>
   isOpen (resetAssessment s) = isOpen s \<and>
   isAnalyzing (resetAssessment s) = isAnalyzing s"
  by (simp add: resetAssessment_def no_assessment_def no_vital_signs_def)

text \<open>
  Opening the dialog, continuing, and picking ``Seizures or convulsions'' shows the local
  result at step 2; ``Start Over'' from there shows step 0, not step 1.
\<close>

theorem start_over_step_counterexample:
  "currentStep (ui_run initial_session
      [StartAssessment, Continue, Pick ''Seizures or convulsions'' Emergency]) = 2 \<and>
   currentStep (ui_run initial_session
      [StartAssessment, Continue, Pick ''Seizures or convulsions'' Emergency, StartOver]) = 0 \<and>
   currentStep (ui_run initial_session
      [StartAssessment, Continue, Pick ''Seizures or convulsions'' Emergency, StartOver]) \<noteq> 1"
  by (simp add: ui_run_def initial_session_def startAssessment_def buttons_def
      emergencySymptoms_def handleSymptomCheck_def getRecommendation_def resetAssessment_def
      no_assessment_def Let_def)

section \<open>The presentation mapper\<close>

lemma lower_actions:
  "map lower ''Call Emergency Vet Now'' = map lower ''Call emergency vet now''"
  "map lower ''Schedule Vet Visit'' = map lower ''Schedule vet visit''"
  "map lower ''Schedule Routine Visit'' = map lower ''Schedule routine visit''"
  by code_simp+

lemma lower_titles:
  "suffix (map lower ''Emergency care needed'')
     (map lower ([CHR 0xF0, CHR 0x9F, CHR 0x9A, CHR 0xA8] @ '' Emergency Care Needed''))"
  "suffix (map lower ''Urgent veterinary care'')
     (map lower ([CHR 0xE2, CHR 0x9A, CHR 0xA0, CHR 0xEF, CHR 0xB8, CHR 0x8F] @
        '' Urgent Veterinary Care''))"
  "suffix (map lower ''Routine care'')
     (map lower ([CHR 0xF0, CHR 0x9F, CHR 0x93, CHR 0x85] @ '' Routine Care''))"
  by code_simp+

text \<open>
  Claim C4. For each of the three urgency values \<open>getRecommendation\<close> returns a
  descriptor: its title ends with the title tone of the specified table and its action
  label is the table's, both up to letter case. The descriptor depends on the urgency
  alone: any two sessions with the same urgency get the same descriptor.
\<close>

theorem getRecommendation_total:
  "urgency (assessment s) = Some u \<Longrightarrow>
     (\<exists>d. getRecommendation s = Some d \<and>
          suffix (map lower (fst (describe_table u))) (map lower (title d)) \<and>
          map lower (action d) = map lower (snd (describe_table u))) \<and>
     (\<forall>s'. urgency (assessment s') = Some u \<longrightarrow> getRecommendation s' = getRecommendation s)"
  by (cases u)
     (simp_all add: getRecommendation_def lower_actions lower_titles
        del: list.map append.simps map_append)

theorem getRecommendation_total_witness:
  "urgency (assessment (select_all initial_session [(''Seizures or convulsions'', Emergency)])) =
     Some Emergency \<and>
   (\<exists>d. getRecommendation (select_all initial_session [(''Seizures or convulsions'', Emergency)]) =
       Some d \<and> action d = ''Call Emergency Vet Now'')"
proof -
  let ?s = "select_all initial_session [(''Seizures or convulsions'', Emergency)]"
  have h: "urgency (assessment ?s) = Some Emergency"
    by (simp add: select_all_def handleSymptomCheck_def initial_session_def
        no_assessment_def Let_def)
  from getRecommendation_total[OF h] obtain d where "getRecommendation ?s = Some d" by blast
  moreover have "action (the (getRecommendation ?s)) = ''Call Emergency Vet Now''"
    using h by (simp add: getRecommendation_def)
  ultimately show ?thesis using h by simp
qed

section \<open>Failures of the AI assessment\<close>

lemma strip_prefixes_Nil: "strip_prefixes tokens [] = []"
proof -
  have "find (\<lambda>w. w \<noteq> [] \<and> prefix w []) tokens = None"
    by (simp add: find_None_iff)
  then show ?thesis by (subst strip_prefixes.simps) simp
qed

lemma js_trim_Nil: "js_trim [] = []"
  by (simp add: js_trim_def strip_prefixes_Nil)

lemma example_prompts_build:
  "emergency_prompt_builds example_assessmentData"
  "symptoms_prompt_builds example_symptomData"
  by code_simp+

lemma example_request_truthy:
  "truthy (Defined (JString ''dog-1''))"
  "truthy (Defined example_assessmentData)"
  by (simp_all add: truthy_def example_assessmentData_def)

text \<open>
  Claim C5. Let the model call fail: it is rejected, or its text is undefined, empty or
  blank, or the text does not parse. Then \<open>performEmergencyAssessment\<close> ends in the
  error that names it, never in a result, and the route answers with a status outside
  2xx. With an \<^verbatim>\<open>apiRequest\<close> that throws on such a status, \<open>performAIAssessment\<close>
  leaves the step, the local result, the stored AI result and the selected symptoms of
  the session as they were.
\<close>

theorem failed_assessment_keeps_session:
  assumes failure:
    "reply = CallRejected \<or> reply = ResponseText None \<or>
     (\<exists>text. reply = ResponseText (Some text) \<and> (js_trim text = [] \<or> parse text = None))"
    and api: "\<forall>response. \<not> ok response \<longrightarrow> apiRequest response = Rejected"
  shows
    "(\<exists>c. performEmergencyAssessment parse data reply =
            Inl (FailedToPerformEmergencyAssessment c)) \<and>
     \<not> ok (emergency_assessment_route parse dogId assessmentData found records reply) \<and>
     currentStep (fst (performAIAssessment s
        (apiRequest (emergency_assessment_route parse dogId assessmentData found records reply)))) =
       currentStep s \<and>
     assessment (fst (performAIAssessment s
        (apiRequest (emergency_assessment_route parse dogId assessmentData found records reply)))) =
       assessment s \<and>
     aiAssessment (fst (performAIAssessment s
        (apiRequest (emergency_assessment_route parse dogId assessmentData found records reply)))) =
       aiAssessment s \<and>
     selectedSymptoms (fst (performAIAssessment s
        (apiRequest (emergency_assessment_route parse dogId assessmentData found records reply)))) =
       selectedSymptoms s"
proof -
  let ?r = "emergency_assessment_route parse dogId assessmentData found records reply"
  have server:
    "\<exists>c. performEmergencyAssessment parse d reply = Inl (FailedToPerformEmergencyAssessment c)"
    for d
    using failure
    by (auto simp: performEmergencyAssessment_def js_trim_Nil split: option.splits)
  have "\<not> ok ?r"
    using server[of "case assessmentData of Defined data \<Rightarrow> data | Undefined \<Rightarrow> JNull"]
    by (auto simp: emergency_assessment_route_def ok_def split: option.splits promise.splits)
  with api have rejected: "apiRequest ?r = Rejected" by blast
  show ?thesis
    using server[of data] \<open>\<not> ok ?r\<close> by (simp add: rejected performAIAssessment_def)
qed

text \<open>
  The empty-body scenario: the session shows the local emergency result at step 2, the
  model answers with an empty text, and the session stays at step 2 with its result.
\<close>

theorem failed_assessment_keeps_session_witness:
  "performEmergencyAssessment JSON_parse_fragment example_assessmentData
      (ResponseText (Some [])) =
     Inl (FailedToPerformEmergencyAssessment EmptyResponse) \<and>
   currentStep (fst (performAIAssessment
      ((handleSymptomCheck initial_session ''Seizures or convulsions'' Emergency)
         \<lparr>selectedDogId := ''dog-1''\<rparr>)
      (reject_unless_ok
         (emergency_assessment_route JSON_parse_fragment (Defined (JString ''dog-1''))
            (Defined example_assessmentData) (Resolved (Some example_dog)) (Resolved [])
            (ResponseText (Some [])))))) = 2 \<and>
   urgency (assessment (fst (performAIAssessment
      ((handleSymptomCheck initial_session ''Seizures or convulsions'' Emergency)
         \<lparr>selectedDogId := ''dog-1''\<rparr>)
      (reject_unless_ok
         (emergency_assessment_route JSON_parse_fragment (Defined (JString ''dog-1''))
            (Defined example_assessmentData) (Resolved (Some example_dog)) (Resolved [])
            (ResponseText (Some []))))))) =
     Some Emergency"
proof -
  let ?s = "(handleSymptomCheck initial_session ''Seizures or convulsions'' Emergency)
         \<lparr>selectedDogId := ''dog-1''\<rparr>"
  have failure:
    "ResponseText (Some []) = CallRejected \<or> ResponseText (Some []) = ResponseText None \<or>
     (\<exists>text. ResponseText (Some []) = ResponseText (Some text) \<and>
        (js_trim text = [] \<or> JSON_parse_fragment text = None))"
    by (simp add: js_trim_Nil)
  have api: "\<forall>response. \<not> ok response \<longrightarrow> reject_unless_ok response = Rejected"
    by (simp add: reject_unless_ok_def)
  have step: "currentStep ?s = 2"
    by (simp add: handleSymptomCheck_def Let_def)
  have urg: "urgency (assessment ?s) = Some Emergency"
    by (simp add: handleSymptomCheck_def Let_def)
  have server: "performEmergencyAssessment JSON_parse_fragment example_assessmentData
      (ResponseText (Some [])) =
     Inl (FailedToPerformEmergencyAssessment EmptyResponse)"
    by (simp add: performEmergencyAssessment_def example_prompts_build)
  let ?out = "performAIAssessment ?s
      (reject_unless_ok (emergency_assessment_route JSON_parse_fragment
            (Defined (JString ''dog-1'')) (Defined example_assessmentData)
            (Resolved (Some example_dog)) (Resolved []) (ResponseText (Some []))))"
  have c: "currentStep (fst ?out) = currentStep ?s"
    and a: "assessment (fst ?out) = assessment ?s"
    using failed_assessment_keeps_session[OF failure api,
      where dogId = "Defined (JString ''dog-1'')"
        and assessmentData = "Defined example_assessmentData"
        and found = "Resolved (Some example_dog)" and records = "Resolved []" and s = ?s]
    by blast+
  show ?thesis by (simp only: c a server step urg simp_thms)
qed

section \<open>What the orchestrator accepts\<close>

text \<open>
  Claim C6, as the code has it. Each of the three analysis functions returns a value
  exactly when its prompt could be written, the model's text is not blank and the text
  parses; the value returned is the parsed value itself, whatever its shape. A prompt
  that cannot be written, a rejected call and an undefined, blank or unparsable text end
  in an error.
\<close>

theorem parsed_reply_returned_unvalidated:
  "(performEmergencyAssessment parse assessmentData reply = Inr v) =
     (emergency_prompt_builds assessmentData \<and>
      (\<exists>text. reply = ResponseText (Some text) \<and> js_trim text \<noteq> [] \<and> parse text = Some v)) \<and>
   (analyzeSymptoms parse symptomData reply = Inr v) =
     (symptoms_prompt_builds symptomData \<and>
      (\<exists>text. reply = ResponseText (Some text) \<and> js_trim text \<noteq> [] \<and> parse text = Some v)) \<and>
   (analyzeHealthPhoto parse context reply = Inr v) =
     (context \<noteq> ContextUnconvertible \<and>
      (\<exists>text. reply = ResponseText (Some text) \<and> js_trim text \<noteq> [] \<and> parse text = Some v))"
  by (cases reply)
     (auto simp: performEmergencyAssessment_def analyzeSymptoms_def analyzeHealthPhoto_def
        js_trim_Nil split: option.splits)

lemma JSON_parse_fragment_examples:
  "JSON_parse_fragment ''{}'' = Some (JObject [])"
  "JSON_parse_fragment ''[]'' = Some (JArray [])"
  "JSON_parse_fragment ''{\"severity\":\"extreme\"}'' =
     Some (JObject [(''severity'', JString ''extreme'')])"
  by code_simp+

lemma js_trim_examples:
  "js_trim ''{}'' \<noteq> []"
  "js_trim ''[]'' \<noteq> []"
  "js_trim ''{\"severity\":\"extreme\"}'' \<noteq> []"
  by code_simp+

text \<open>
  Three texts that parse and do not have the declared shape: the empty object as an
  emergency assessment (which the route sends on with status 200), an object with an
  undeclared severity as a symptom analysis, and the empty array as a photo analysis.
\<close>

theorem unvalidated_shape_counterexample:
  "performEmergencyAssessment JSON_parse_fragment example_assessmentData
       (ResponseText (Some ''{}'')) =
     Inr (JObject []) \<and>
   \<not> conforms_EmergencyAssessment (JObject []) \<and>
   emergency_assessment_route JSON_parse_fragment (Defined (JString ''dog-1''))
       (Defined example_assessmentData) (Resolved (Some example_dog)) (Resolved [])
       (ResponseText (Some ''{}'')) =
     \<lparr>status = 200, payload = JObject []\<rparr> \<and>
   analyzeSymptoms JSON_parse_fragment example_symptomData
       (ResponseText (Some ''{\"severity\":\"extreme\"}'')) =
     Inr (JObject [(''severity'', JString ''extreme'')]) \<and>
   \<not> conforms_SymptomAnalysis (JObject [(''severity'', JString ''extreme'')]) \<and>
   analyzeHealthPhoto JSON_parse_fragment NoContext (ResponseText (Some ''[]'')) =
     Inr (JArray []) \<and>
   \<not> conforms_PhotoAnalysis (JArray [])"
proof -
  have 1: "performEmergencyAssessment JSON_parse_fragment example_assessmentData
       (ResponseText (Some ''{}'')) =
      Inr (JObject [])"
    using js_trim_examples(1)
    by (simp add: performEmergencyAssessment_def example_prompts_build
        JSON_parse_fragment_examples(1))
  have 2: "\<not> conforms_EmergencyAssessment (JObject [])"
    by (simp add: conforms_EmergencyAssessment_def json_member_def is_one_of_def)
  have 3: "emergency_assessment_route JSON_parse_fragment (Defined (JString ''dog-1''))
       (Defined example_assessmentData) (Resolved (Some example_dog)) (Resolved [])
       (ResponseText (Some ''{}'')) =
     \<lparr>status = 200, payload = JObject []\<rparr>"
    by (simp add: emergency_assessment_route_def example_request_truthy 1)
  have 4: "analyzeSymptoms JSON_parse_fragment example_symptomData
       (ResponseText (Some ''{\"severity\":\"extreme\"}'')) =
     Inr (JObject [(''severity'', JString ''extreme'')])"
    using js_trim_examples(3)
    by (simp add: analyzeSymptoms_def example_prompts_build JSON_parse_fragment_examples(3))
  have 5: "\<not> conforms_SymptomAnalysis (JObject [(''severity'', JString ''extreme'')])"
    by (simp add: conforms_SymptomAnalysis_def json_member_def is_one_of_def)
  have 6: "analyzeHealthPhoto JSON_parse_fragment NoContext (ResponseText (Some ''[]'')) =
      Inr (JArray [])"
    using js_trim_examples(2)
    by (simp add: analyzeHealthPhoto_def JSON_parse_fragment_examples(2))
  have 7: "\<not> conforms_PhotoAnalysis (JArray [])"
    by (simp add: conforms_PhotoAnalysis_def json_member_def is_string_def)
  from 1 2 3 4 5 6 7 show ?thesis by blast
qed

text \<open>
  A request whose duration is an object with a member \<^verbatim>\<open>toString\<close> cannot be
  written into the prompt: the route answers 500 whatever the model would have said.
\<close>

lemma unconvertible_member_fails:
  "emergency_assessment_route JSON_parse_fragment (Defined (JString ''dog-1''))
       (Defined (JObject [(''symptoms'', JArray [JString ''Seizures or convulsions'']),
                          (''duration'', JObject [(''toString'', JNull)])]))
       (Resolved (Some example_dog)) (Resolved [])
       (ResponseText (Some ''{}'')) =
     \<lparr>status = 500,
      payload = JObject [(''error'', JString ''Failed to perform emergency assessment'')]\<rparr>"
  by (simp add: emergency_assessment_route_def truthy_def performEmergencyAssessment_def
      emergency_prompt_builds_def json_member_def converts_def)

section \<open>The dog's age\<close>

lemma ms_per_year_pos: "0 < ms_per_year"
  by (simp add: ms_per_year_def)

lemma age_div: "age now (Some born) = Some ((now - born) div ms_per_year)"
  unfolding age_def by (simp only: floor_divide_of_int_eq option.case)

lemma div_eq_iff_int:
  fixes a y k :: int
  assumes "0 < y"
  shows "(a div y = k) = (k * y \<le> a \<and> a < (k + 1) * y)"
proof
  assume k: "a div y = k"
  have "a = y * (a div y) + a mod y" by simp
  moreover have "0 \<le> a mod y" and "a mod y < y" using assms by simp_all
  ultimately have "y * k \<le> a \<and> a < y * k + y" using k by auto
  then show "k * y \<le> a \<and> a < (k + 1) * y" by (simp add: algebra_simps)
next
  assume h: "k * y \<le> a \<and> a < (k + 1) * y"
  have "a = y * k + (a - y * k)" by simp
  moreover have "0 \<le> a - y * k" using h by (simp add: algebra_simps)
  moreover have "a - y * k < y" using h by (simp add: algebra_simps)
  ultimately show "a div y = k" by (rule int_div_pos_eq)
qed

lemma show_int_2: "show_int 2 = ''2''"
  by code_simp

lemma example_dates:
  "utc_midnight (2021, 1, 15) = 1610668800000"
  "utc_midnight (2023, 12, 15) = 1702598400000"
  "utc_midnight (2020, 1, 15) = 1579046400000"
  "utc_midnight (2023, 1, 14) = 1673654400000"
  "utc_midnight (2023, 9, 1) = 1693526400000"
  "utc_midnight (2024, 1, 1) = 1704067200000"
  by (simp_all add: utc_midnight_def Let_def)

text \<open>
  Claim C7, as the code has it. The age is computed by truncation, in years of 365 days:
  it is \<open>k\<close> exactly when the elapsed time is at least \<open>k\<close> such years and less than
  \<open>k + 1\<close>. So an elapsed time of at least two such years and less than three, two
  years and eleven months among them, gives 2, and the prompt says ``2 years''. A dog
  without a birth date has no age. The prompt gives the computed age followed by
  ``years'', except that it says ``unknown'' for an age of 0 as for no age.
\<close>

theorem age_truncates:
  "(age now (Some born) = Some k) =
     (k * ms_per_year \<le> now - born \<and> now - born < (k + 1) * ms_per_year) \<and>
   (2 * ms_per_year \<le> now - born \<and> now - born < 3 * ms_per_year \<longrightarrow>
      age now (Some born) = Some 2 \<and> age_line (age now (Some born)) = ''- Age: 2 years'') \<and>
   age now None = None \<and>
   age_line None = ''- Age: unknown'' \<and>
   age_line (Some 0) = ''- Age: unknown'' \<and>
   (k \<noteq> 0 \<longrightarrow> age_line (Some k) = ''- Age: '' @ show_int k @ '' years'')"
proof -
  have 1: "(age now (Some born) = Some k) =
     (k * ms_per_year \<le> now - born \<and> now - born < (k + 1) * ms_per_year)"
    using div_eq_iff_int[OF ms_per_year_pos, of "now - born" k] by (simp add: age_div)
  have 2: "2 * ms_per_year \<le> now - born \<and> now - born < 3 * ms_per_year \<longrightarrow>
      age now (Some born) = Some 2 \<and> age_line (age now (Some born)) = ''- Age: 2 years''"
  proof
    assume "2 * ms_per_year \<le> now - born \<and> now - born < 3 * ms_per_year"
    then have "(now - born) div ms_per_year = 2"
      using div_eq_iff_int[OF ms_per_year_pos, of "now - born" 2] by simp
    then have "age now (Some born) = Some 2" by (simp add: age_div)
    then show "age now (Some born) = Some 2 \<and>
        age_line (age now (Some born)) = ''- Age: 2 years''"
      by (simp add: age_line_def show_int_2)
  qed
  have 3: "age now None = None" by (simp add: age_def)
  have 4: "age_line None = ''- Age: unknown''" "age_line (Some 0) = ''- Age: unknown''"
    by (simp_all add: age_line_def)
  have 5: "k \<noteq> 0 \<longrightarrow> age_line (Some k) = ''- Age: '' @ show_int k @ '' years''"
    by (simp add: age_line_def)
  from 1 2 3 4 5 show ?thesis by blast
qed

text \<open>
  Born on 15 January 2021 (UTC), seen on 15 December 2023: two years and eleven months,
  1064 days. The age is 2; rounding the quotient would give 3.
\<close>

theorem age_truncates_witness:
  "2 * ms_per_year \<le> utc_midnight (2023, 12, 15) - utc_midnight (2021, 1, 15) \<and>
   utc_midnight (2023, 12, 15) - utc_midnight (2021, 1, 15) < 3 * ms_per_year \<and>
   utc_midnight (2023, 12, 15) - utc_midnight (2021, 1, 15) = 1064 * (24 * 60 * 60 * 1000) \<and>
   age (utc_midnight (2023, 12, 15)) (Some (utc_midnight (2021, 1, 15))) = Some 2 \<and>
   age_line (age (utc_midnight (2023, 12, 15)) (Some (utc_midnight (2021, 1, 15)))) =
     ''- Age: 2 years'' \<and>
   round (real_of_int (utc_midnight (2023, 12, 15) - utc_midnight (2021, 1, 15)) /
          real_of_int ms_per_year) = 3"
proof -
  have h: "2 * ms_per_year \<le> utc_midnight (2023, 12, 15) - utc_midnight (2021, 1, 15) \<and>
     utc_midnight (2023, 12, 15) - utc_midnight (2021, 1, 15) < 3 * ms_per_year"
    by (simp add: example_dates ms_per_year_def)
  have d: "utc_midnight (2023, 12, 15) - utc_midnight (2021, 1, 15) =
      1064 * (24 * 60 * 60 * 1000)"
    by (simp add: example_dates)
  have r: "round (real_of_int (utc_midnight (2023, 12, 15) - utc_midnight (2021, 1, 15)) /
          real_of_int ms_per_year) = 3"
    by (simp add: example_dates ms_per_year_def round_def floor_eq_iff)
  from age_truncates[of "utc_midnight (2023, 12, 15)" "utc_midnight (2021, 1, 15)" 2] h d r
  show ?thesis by blast
qed

text \<open>
  Born on 15 January 2020, seen on 14 January 2023, the day before the third birthday:
  1095 days have passed, a leap day among them, and the age is 3 where two whole calendar
  years have elapsed. Born on 1 September 2023, seen on 1 January 2024: the age is 0 and
  the prompt says ``unknown''.
\<close>

theorem age_calendar_counterexample:
  "age (utc_midnight (2023, 1, 14)) (Some (utc_midnight (2020, 1, 15))) = Some 3 \<and>
   calendar_years_between (2020, 1, 15) (2023, 1, 14) = 2 \<and>
   age (utc_midnight (2024, 1, 1)) (Some (utc_midnight (2023, 9, 1))) = Some 0 \<and>
   age_line (age (utc_midnight (2024, 1, 1)) (Some (utc_midnight (2023, 9, 1)))) =
     ''- Age: unknown''"
  by (simp add: age_div example_dates ms_per_year_def age_line_def)

section \<open>Batch photo analysis\<close>

lemma analyze_each_no_throw:
  "\<forall>file \<in> set files.
      fetch file \<noteq> FetchRejected \<and> fetch file \<noteq> FetchResponse True None \<Longrightarrow>
   analyze_each fetch files analyses =
     Some (analyses @ concat (map (\<lambda>file. case fetch file of
                FetchResponse True (Some analysis) \<Rightarrow> [analysis] | _ \<Rightarrow> []) files))"
proof (induction files arbitrary: analyses)
  case Nil
  show ?case by simp
next
  case (Cons f fs)
  then show ?case
    by (cases "fetch f") (auto split: option.splits bool.splits)
qed

lemma show_nat_examples: "show_nat (Suc 0) = ''1''" "show_nat (Suc (Suc 0)) = ''2''"
  by code_simp+

text \<open>
  Claim C8, as the code has it. When at least one file is selected, every request
  resolves to a response and the body of every ok response can be read as JSON, the
  loop runs to its end: the stored analyses are exactly the bodies of the ok responses,
  in the order of the files, and the toast tells how many there are. A response that is
  not ok is skipped without any record of the file it belonged to.
\<close>

theorem analyzePhotos_keeps_successes:
  assumes "selectedFiles form \<noteq> []"
    and "\<forall>file \<in> set (selectedFiles form).
           fetch file \<noteq> FetchRejected \<and> fetch file \<noteq> FetchResponse True None"
  shows "analyzePhotos fetch form =
    (form\<lparr>photoAnalyses :=
        concat (map (\<lambda>file. case fetch file of
                  FetchResponse True (Some analysis) \<Rightarrow> [analysis] | _ \<Rightarrow> [])
          (selectedFiles form)),
      isAnalyzingPhotos := False\<rparr>,
     Toast ''Photo Analysis Complete''
       (''Analyzed '' @
        show_nat (length (concat (map (\<lambda>file. case fetch file of
                  FetchResponse True (Some analysis) \<Rightarrow> [analysis] | _ \<Rightarrow> [])
          (selectedFiles form)))) @
        '' photo(s) successfully.'')
       DefaultVariant)"
  using assms(1) analyze_each_no_throw[OF assms(2), of "[]"]
  by (simp add: analyzePhotos_def)

theorem analyzePhotos_keeps_successes_witness:
  "selectedFiles (example_form [''scan.tiff'', ''paw.png'']) \<noteq> [] \<and>
   analyzePhotos example_fetch (example_form [''scan.tiff'', ''paw.png'']) =
     ((example_form [''scan.tiff'', ''paw.png''])
        \<lparr>photoAnalyses := [JObject [(''findings'', JString ''paw.png'')]],
         isAnalyzingPhotos := False\<rparr>,
      Toast ''Photo Analysis Complete'' ''Analyzed 1 photo(s) successfully.'' DefaultVariant)"
proof -
  let ?form = "example_form [''scan.tiff'', ''paw.png'']"
  have h1: "selectedFiles ?form \<noteq> []"
    by (simp add: example_form_def)
  have h2: "\<forall>file \<in> set (selectedFiles ?form).
      example_fetch file \<noteq> FetchRejected \<and> example_fetch file \<noteq> FetchResponse True None"
    by (simp add: example_form_def example_fetch_def)
  have successes:
    "concat (map (\<lambda>file. case example_fetch file of
                FetchResponse True (Some analysis) \<Rightarrow> [analysis] | _ \<Rightarrow> [])
        (selectedFiles ?form)) = [JObject [(''findings'', JString ''paw.png'')]]"
    by (simp add: example_form_def example_fetch_def)
  have "analyzePhotos example_fetch ?form =
     (?form\<lparr>photoAnalyses := [JObject [(''findings'', JString ''paw.png'')]],
         isAnalyzingPhotos := False\<rparr>,
      Toast ''Photo Analysis Complete'' ''Analyzed 1 photo(s) successfully.'' DefaultVariant)"
    using analyzePhotos_keeps_successes[OF h1 h2] unfolding successes
    by (simp add: show_nat_examples)
  with h1 show ?thesis by blast
qed

text \<open>
  Three photos, of which the second is answered with status 500: the two analyses are
  stored, and the toast and the stored analyses are the same as for a batch of the two
  good photos alone, so nothing delivered tells that a photo failed, nor which. When
  instead the request for the third photo is rejected, after two photos were analysed, no
  analysis is stored at all.
\<close>

theorem analyzePhotos_report_counterexample:
  "analyzePhotos example_fetch (example_form [''rash.jpg'', ''scan.tiff'', ''paw.png'']) =
     ((example_form [''rash.jpg'', ''scan.tiff'', ''paw.png''])
        \<lparr>photoAnalyses := [JObject [(''findings'', JString ''rash.jpg'')],
                           JObject [(''findings'', JString ''paw.png'')]],
         isAnalyzingPhotos := False\<rparr>,
      Toast ''Photo Analysis Complete'' ''Analyzed 2 photo(s) successfully.'' DefaultVariant) \<and>
   snd (analyzePhotos example_fetch (example_form [''rash.jpg'', ''scan.tiff'', ''paw.png''])) =
     snd (analyzePhotos example_fetch (example_form [''rash.jpg'', ''paw.png''])) \<and>
   photoAnalyses (fst (analyzePhotos example_fetch
       (example_form [''rash.jpg'', ''scan.tiff'', ''paw.png'']))) =
     photoAnalyses (fst (analyzePhotos example_fetch (example_form [''rash.jpg'', ''paw.png'']))) \<and>
   analyzePhotos example_fetch_offline (example_form [''rash.jpg'', ''paw.png'', ''scan.tiff'']) =
     (example_form [''rash.jpg'', ''paw.png'', ''scan.tiff''],
      Toast ''Photo Analysis Failed'' ''Unable to analyze photos. Please try again.'' Destructive)"
  by (simp add: analyzePhotos_def example_form_def example_fetch_def example_fetch_offline_def
      show_nat_examples)

section \<open>The list of selected symptoms\<close>

lemma distinct_toggleSymptom:
  "distinct (selectedSymptoms t) \<Longrightarrow> distinct (selectedSymptoms (toggleSymptom t symptom))"
  by (simp add: toggleSymptom_def)

lemma distinct_operations:
  "distinct (selectedSymptoms s) \<Longrightarrow> selects_unselected s ops \<Longrightarrow>
     distinct (selectedSymptoms (foldl apply_operation s ops))"
proof (induction s ops rule: selects_unselected.induct)
  case (1 s)
  then show ?case by simp
next
  case (2 s symptom category ops)
  then show ?case by (simp add: selectedSymptoms_handleSymptomCheck)
next
  case (3 s symptom ops)
  then show ?case by (simp add: distinct_toggleSymptom)
qed

text \<open>
  Claim C9, as the code has it. \<open>handleSymptomCheck\<close> appends the phrase at the end of
  the list without looking whether it is there; \<open>toggleSymptom\<close> appends an absent phrase
  at the end and removes a present one, keeping the order of the others. So the list is
  in the order of the clicks, and it stays free of duplicates along every sequence of
  selections and toggles in which no selection names a phrase that is in the list at
  that moment.
\<close>

theorem selectedSymptoms_distinct:
  assumes "distinct (selectedSymptoms s)" and "selects_unselected s ops"
  shows "distinct (selectedSymptoms (foldl apply_operation s ops)) \<and>
         selectedSymptoms (apply_operation s (Select symptom category)) =
           selectedSymptoms s @ [symptom] \<and>
         selectedSymptoms (apply_operation s (Toggle symptom)) =
           (if symptom \<in> set (selectedSymptoms s)
            then filter (\<lambda>x. x \<noteq> symptom) (selectedSymptoms s)
            else selectedSymptoms s @ [symptom])"
  using distinct_operations[OF assms]
  by (simp add: selectedSymptoms_handleSymptomCheck toggleSymptom_def)

theorem selectedSymptoms_distinct_witness:
  "distinct (selectedSymptoms initial_session) \<and>
   selects_unselected initial_session
     [Select ''Minor scratching'' Routine, Select ''Persistent vomiting'' Urgent,
      Toggle ''Minor scratching'', Select ''Minor scratching'' Routine] \<and>
   selectedSymptoms (foldl apply_operation initial_session
     [Select ''Minor scratching'' Routine, Select ''Persistent vomiting'' Urgent,
      Toggle ''Minor scratching'', Select ''Minor scratching'' Routine]) =
     [''Persistent vomiting'', ''Minor scratching''] \<and>
   distinct (selectedSymptoms (foldl apply_operation initial_session
     [Select ''Minor scratching'' Routine, Select ''Persistent vomiting'' Urgent,
      Toggle ''Minor scratching'', Select ''Minor scratching'' Routine]))"
proof -
  let ?ops = "[Select ''Minor scratching'' Routine, Select ''Persistent vomiting'' Urgent,
      Toggle ''Minor scratching'', Select ''Minor scratching'' Routine]"
  have h1: "distinct (selectedSymptoms initial_session)"
    by (simp add: initial_session_def)
  have h2: "selects_unselected initial_session ?ops"
    by (simp add: initial_session_def handleSymptomCheck_def toggleSymptom_def Let_def)
  have v: "selectedSymptoms (foldl apply_operation initial_session ?ops) =
     [''Persistent vomiting'', ''Minor scratching'']"
    by (simp add: initial_session_def handleSymptomCheck_def toggleSymptom_def Let_def)
  from selectedSymptoms_distinct[OF h1 h2] h1 h2 v show ?thesis by simp
qed

text \<open>
  Selecting ``Severe bleeding'' twice lists it twice. The dialog reaches this: after the
  first pick the dialog is closed and opened again with ``Start Assessment'', which
  clears the recorded symptoms and leaves the selected ones, and the phrase is picked
  once more.
\<close>

theorem selectedSymptoms_duplicate_counterexample:
  "selectedSymptoms (foldl apply_operation initial_session
      [Select ''Severe bleeding'' Emergency, Select ''Severe bleeding'' Emergency]) =
     [''Severe bleeding'', ''Severe bleeding''] \<and>
   \<not> distinct (selectedSymptoms (foldl apply_operation initial_session
      [Select ''Severe bleeding'' Emergency, Select ''Severe bleeding'' Emergency])) \<and>
   selectedSymptoms (ui_run initial_session
      [StartAssessment, Continue, Pick ''Severe bleeding'' Emergency, Close,
       StartAssessment, Continue, Pick ''Severe bleeding'' Emergency]) =
     [''Severe bleeding'', ''Severe bleeding'']"
  by (simp add: ui_run_def initial_session_def startAssessment_def buttons_def
      emergencySymptoms_def handleSymptomCheck_def getRecommendation_def
      no_assessment_def Let_def)

subsection \<open>Toggling\<close>

lemma filter_absent:
  "symptom \<notin> set xs \<Longrightarrow> filter (\<lambda>x. x \<noteq> symptom) xs = xs"
  by (induction xs) auto

lemma toggleSymptom_twice:
  "symptom \<notin> set (selectedSymptoms s) \<Longrightarrow>
     toggleSymptom (toggleSymptom s symptom) symptom = s"
  by (simp add: toggleSymptom_def filter_absent)

text \<open>
  Claim C10. \<open>toggleSymptom\<close> removes every occurrence of a phrase that is in the list,
  so that the phrase is no longer in it, and appends a phrase that is not in the list at
  the end; toggling a phrase that is not in the list twice gives the session back.
\<close>

theorem toggleSymptom_round_trip:
  "(symptom \<in> set (selectedSymptoms s) \<longrightarrow>
      selectedSymptoms (toggleSymptom s symptom) =
        filter (\<lambda>x. x \<noteq> symptom) (selectedSymptoms s) \<and>
      symptom \<notin> set (selectedSymptoms (toggleSymptom s symptom))) \<and>
   (symptom \<notin> set (selectedSymptoms s) \<longrightarrow>
      selectedSymptoms (toggleSymptom s symptom) = selectedSymptoms s @ [symptom] \<and>
      toggleSymptom (toggleSymptom s symptom) symptom = s)"
  using toggleSymptom_twice[of symptom s] by (simp add: toggleSymptom_def)

theorem toggleSymptom_round_trip_witness:
  "''a'' \<in> set (selectedSymptoms (initial_session\<lparr>selectedSymptoms := [''a'', ''b'', ''a'']\<rparr>)) \<and>
   selectedSymptoms
     (toggleSymptom (initial_session\<lparr>selectedSymptoms := [''a'', ''b'', ''a'']\<rparr>) ''a'') = [''b''] \<and>
   ''a'' \<notin> set (selectedSymptoms (initial_session\<lparr>selectedSymptoms := [''b'']\<rparr>)) \<and>
   selectedSymptoms (toggleSymptom (initial_session\<lparr>selectedSymptoms := [''b'']\<rparr>) ''a'') =
     [''b'', ''a''] \<and>
   toggleSymptom (toggleSymptom (initial_session\<lparr>selectedSymptoms := [''b'']\<rparr>) ''a'') ''a'' =
     initial_session\<lparr>selectedSymptoms := [''b'']\<rparr>"
  using toggleSymptom_round_trip[of "''a''"
          "initial_session\<lparr>selectedSymptoms := [''a'', ''b'', ''a'']\<rparr>"]
        toggleSymptom_round_trip[of "''a''" "initial_session\<lparr>selectedSymptoms := [''b'']\<rparr>"]
  by simp

end
